theory Spec2Isabelle
  imports Complex_Main "HOL-Library.Word" "HOL-Library.Monad_Syntax"
begin

unbundle bit_operations_syntax

section \<open>The record paint engine of veusz (helpers/src/recordpaintengine.cpp)\<close>

text \<open>
  The file defines one \<^verbatim>\<open>PaintElement\<close> subclass per drawing primitive and per
  painter-state change, and the \<^verbatim>\<open>RecordPaintEngine\<close> that appends such elements to
  the list kept by a \<^verbatim>\<open>RecordPaintDevice\<close>. The embedding below follows the file from
  top to bottom: Qt's value types, the elements with their constructors and their
  \<^verbatim>\<open>paint\<close> methods, then the engine.
\<close>

subsection \<open>Qt value types\<close>

text \<open>
  The Qt classes are declared in Qt's headers. The code never computes with them: it
  copies them into members and hands them back to a \<^verbatim>\<open>QPainter\<close>. Integer
  geometry carries \<open>int\<close> coordinates, the F variants carry \<open>real\<close> coordinates
  (\<^verbatim>\<open>qreal\<close>; no arithmetic is performed on them), and the classes whose content the
  code never looks into (images, pixmaps, brushes, pens, fonts, paths, regions) carry
  a number standing for their content.
\<close>

type_synonym ptr = nat
  \<comment> \<open>an address; \<open>0\<close> is the null pointer\<close>

type_synonym QString = string

datatype QPoint = QPoint int int
datatype QPointF = QPointF real real
datatype QLine = QLine QPoint QPoint
datatype QLineF = QLineF QPointF QPointF
datatype QRect = QRect int int int int
  \<comment> \<open>x, y, width, height\<close>
datatype QRectF = QRectF real real real real

datatype QImage = QImage nat
datatype QPixmap = QPixmap nat
datatype QBrush = QBrush nat
datatype QPen = QPen nat
datatype QFont = QFont nat
datatype QPainterPath = QPainterPath nat
datatype QRegion = QRegion nat
datatype QTransform = QTransform real real real real real real real real real

text \<open>\<^verbatim>\<open>QRectF(const QRect&)\<close>, the implicit conversion used by
  \<^verbatim>\<open>drawEllipse(const QRect&)\<close>.\<close>

fun QRectF_of_QRect :: "QRect \<Rightarrow> QRectF" where
  "QRectF_of_QRect (QRect x y w h) = QRectF (of_int x) (of_int y) (of_int w) (of_int h)"

datatype BGMode = TransparentMode | OpaqueMode
datatype ClipOperation = NoClip | ReplaceClip | IntersectClip | UniteClip
datatype FillRule = OddEvenFill | WindingFill
datatype PolygonDrawMode = OddEvenMode | WindingMode | ConvexMode | PolylineMode

type_synonym ImageConversionFlags = "32 word"
type_synonym CompositionMode = "32 word"
type_synonym RenderHints = "32 word"

text \<open>A \<^verbatim>\<open>QTextItem\<close>: the text of the run and what else the class gives access to.\<close>

record QTextItem =
  item_text :: QString
  item_font :: QFont
  item_renderFlags :: "32 word"
  item_width :: real
  item_ascent :: real
  item_descent :: real

text \<open>
  The caller's batch arguments are C arrays: a pointer and a count. An array lives in
  the caller's memory, a partial map from addresses to elements; a cell that is not
  allocated is \<open>None\<close>.
\<close>

type_synonym 'a array_mem = "ptr \<rightharpoonup> 'a"

definition buffer_holds :: "'a array_mem \<Rightarrow> ptr \<Rightarrow> 'a list \<Rightarrow> bool" where
  "buffer_holds mem p xs = list_all (\<lambda>k. mem (p + k) = Some (xs ! k)) [0..<length xs]"

subsection \<open>The painter\<close>

text \<open>
  \<^verbatim>\<open>QPainter\<close> is the renderer the elements are replayed on. It is seen through the
  calls it receives: a painter is the sequence of the calls made on it so far, one
  constructor per \<^verbatim>\<open>QPainter\<close> method (and overload) that the elements call.
\<close>

datatype PainterCall =
    DrawEllipse QRectF
  | DrawImage QRectF QImage QRectF ImageConversionFlags
  | DrawLines "QLine list"
  | DrawLinesF "QLineF list"
  | DrawPath QPainterPath
  | DrawPixmap QRectF QPixmap QRectF
  | DrawPoints "QPoint list"
  | DrawPointsF "QPointF list"
  | DrawPolygon "QPoint list" FillRule
  | DrawPolygonF "QPointF list" FillRule
  | DrawConvexPolygon "QPoint list"
  | DrawConvexPolygonF "QPointF list"
  | DrawPolyline "QPoint list"
  | DrawPolylineF "QPointF list"
  | DrawRects "QRect list"
  | DrawRectsF "QRectF list"
  | DrawText QPointF QString
  | DrawTiledPixmap QRectF QPixmap QPointF
  | SetBackground QBrush
  | SetBackgroundMode BGMode
  | SetBrush QBrush
  | SetBrushOrigin QPointF
  | SetClipRegion QRegion ClipOperation
  | SetClipPath QPainterPath ClipOperation
  | SetCompositionMode CompositionMode
  | SetFont QFont
  | SetWorldTransform QTransform
  | SetClipping bool
  | SetPen QPen
  | SetRenderHints RenderHints

type_synonym QPainter = "PainterCall list"

subsection \<open>Paint elements\<close>

text \<open>
  One constructor per concrete class of the anonymous namespace, holding the members
  of the class (the typedefs of the four templates are the \<open>F\<close> and non-\<open>F\<close>
  constructors). The arguments are in the order of the C++ constructor, except for
  \<open>PolygonElement\<close>, which holds its two members \<^verbatim>\<open>_mode\<close> and \<^verbatim>\<open>_pts\<close>.
\<close>

datatype PaintElement =
    EllipseElement QRectF
  | ImageElement QRectF QImage QRectF ImageConversionFlags
  | LineElement "QLine list"
  | LineFElement "QLineF list"
  | PathElement QPainterPath
  | PixmapElement QRectF QPixmap QRectF
  | PointElement "QPoint list"
  | PointFElement "QPointF list"
  | PolygonElement PolygonDrawMode "QPoint list"
  | PolygonFElement PolygonDrawMode "QPointF list"
  | RectElement "QRect list"
  | RectFElement "QRectF list"
  | TextElement QPointF QString
  | TiledPixmapElement QRectF QPixmap QPointF
  | BackgroundBrushElement QBrush
  | BackgroundModeElement BGMode
  | BrushElement QBrush
  | BrushOriginElement QPointF
  | ClipRegionElement ClipOperation QRegion
  | ClipPathElement ClipOperation QPainterPath
  | CompositionElement CompositionMode
  | FontElement QFont
  | TransformElement QTransform
  | ClipEnabledElement bool
  | PenElement QPen
  | HintsElement RenderHints

text \<open>
  The loop of the four template constructors,
  \<^verbatim>\<open>for(int i = 0; i < count; i++) _vec << src[i];\<close>
  with \<open>i\<close> and the vector built so far as arguments. Reading a cell that the
  caller's memory does not hold is undefined behaviour in C++; here it is \<open>None\<close>.
  The index never exceeds the count, so the \<^verbatim>\<open>int\<close> arithmetic does not wrap.
\<close>

function append_loop :: "'a array_mem \<Rightarrow> ptr \<Rightarrow> int \<Rightarrow> int \<Rightarrow> 'a list \<Rightarrow> 'a list option" where
  "append_loop mem src count i vec =
     (if i < count then
        (case mem (src + nat i) of
           None \<Rightarrow> None
         | Some v \<Rightarrow> append_loop mem src count (i + 1) (vec @ [v]))
      else Some vec)"
  by pat_completeness auto
termination
  by (relation "measure (\<lambda>(mem, src, count, i, vec). nat (count - i))") auto

text \<open>The template constructors: each starts from the empty vector and \<open>i = 0\<close>.\<close>

definition lineElement :: "'a array_mem \<Rightarrow> ptr \<Rightarrow> int \<Rightarrow> 'a list option" where
  "lineElement mem lines linecount = append_loop mem lines linecount 0 []"

definition pointElement :: "'a array_mem \<Rightarrow> ptr \<Rightarrow> int \<Rightarrow> 'a list option" where
  "pointElement mem points pointcount = append_loop mem points pointcount 0 []"

definition polyElement ::
  "'a array_mem \<Rightarrow> ptr \<Rightarrow> int \<Rightarrow> PolygonDrawMode \<Rightarrow> (PolygonDrawMode \<times> 'a list) option" where
  "polyElement mem points pointcount mode =
     map_option (\<lambda>pts. (mode, pts)) (append_loop mem points pointcount 0 [])"

definition rectElement :: "'a array_mem \<Rightarrow> ptr \<Rightarrow> int \<Rightarrow> 'a list option" where
  "rectElement mem rects rectcount = append_loop mem rects rectcount 0 []"

text \<open>\<^verbatim>\<open>TextElement(pt, txt) : _pt(pt), _text(txt.text())\<close>\<close>

definition mk_TextElement :: "QPointF \<Rightarrow> QTextItem \<Rightarrow> PaintElement" where
  "mk_TextElement pt txt = TextElement pt (item_text txt)"

text \<open>
  \<^verbatim>\<open>void paint(QPainter& painter)\<close> is not a const method: it is given the element and
  the painter, and returns both as the method leaves them.
\<close>

fun paint :: "PaintElement \<Rightarrow> QPainter \<Rightarrow> PaintElement \<times> QPainter" where
  "paint (EllipseElement ellipse) painter =
     (EllipseElement ellipse, painter @ [DrawEllipse ellipse])"
| "paint (ImageElement rect img sr flags) painter =
     (ImageElement rect img sr flags, painter @ [DrawImage rect img sr flags])"
| "paint (LineElement lines) painter =
     (LineElement lines, painter @ [DrawLines lines])"
| "paint (LineFElement lines) painter =
     (LineFElement lines, painter @ [DrawLinesF lines])"
| "paint (PathElement path) painter =
     (PathElement path, painter @ [DrawPath path])"
| "paint (PixmapElement r pm sr) painter =
     (PixmapElement r pm sr, painter @ [DrawPixmap r pm sr])"
| "paint (PointElement pts) painter =
     (PointElement pts, painter @ [DrawPoints pts])"
| "paint (PointFElement pts) painter =
     (PointFElement pts, painter @ [DrawPointsF pts])"
| "paint (PolygonElement mode pts) painter =
     (PolygonElement mode pts,
      (case mode of
         OddEvenMode \<Rightarrow> painter @ [DrawPolygon pts OddEvenFill]
       | WindingMode \<Rightarrow> painter @ [DrawPolygon pts WindingFill]
       | ConvexMode \<Rightarrow> painter @ [DrawConvexPolygon pts]
       | PolylineMode \<Rightarrow> painter @ [DrawPolyline pts]))"
| "paint (PolygonFElement mode pts) painter =
     (PolygonFElement mode pts,
      (case mode of
         OddEvenMode \<Rightarrow> painter @ [DrawPolygonF pts OddEvenFill]
       | WindingMode \<Rightarrow> painter @ [DrawPolygonF pts WindingFill]
       | ConvexMode \<Rightarrow> painter @ [DrawConvexPolygonF pts]
       | PolylineMode \<Rightarrow> painter @ [DrawPolylineF pts]))"
| "paint (RectElement rects) painter =
     (RectElement rects, painter @ [DrawRects rects])"
| "paint (RectFElement rects) painter =
     (RectFElement rects, painter @ [DrawRectsF rects])"
| "paint (TextElement pt txt) painter =
     (TextElement pt txt, painter @ [DrawText pt txt])"
| "paint (TiledPixmapElement rect pixmap pt) painter =
     (TiledPixmapElement rect pixmap pt, painter @ [DrawTiledPixmap rect pixmap pt])"
| "paint (BackgroundBrushElement brush) painter =
     (BackgroundBrushElement brush, painter @ [SetBackground brush])"
| "paint (BackgroundModeElement mode) painter =
     (BackgroundModeElement mode, painter @ [SetBackgroundMode mode])"
| "paint (BrushElement brush) painter =
     (BrushElement brush, painter @ [SetBrush brush])"
| "paint (BrushOriginElement origin) painter =
     (BrushOriginElement origin, painter @ [SetBrushOrigin origin])"
| "paint (ClipRegionElement op region) painter =
     (ClipRegionElement op region, painter @ [SetClipRegion region op])"
| "paint (ClipPathElement op region) painter =
     (ClipPathElement op region, painter @ [SetClipPath region op])"
| "paint (CompositionElement mode) painter =
     (CompositionElement mode, painter @ [SetCompositionMode mode])"
| "paint (FontElement font) painter =
     (FontElement font, painter @ [SetFont font])"
| "paint (TransformElement t) painter =
     (TransformElement t, painter @ [SetWorldTransform t])"
| "paint (ClipEnabledElement enabled) painter =
     (ClipEnabledElement enabled, painter @ [SetClipping enabled])"
| "paint (PenElement pen) painter =
     (PenElement pen, painter @ [SetPen pen])"
| "paint (HintsElement hints) painter =
     (HintsElement hints, painter @ [SetRenderHints hints])"

subsection \<open>Paint devices\<close>

text \<open>
  The engine holds a pointer to its device. Devices live in a heap; what a
  \<^verbatim>\<open>QPaintDevice*\<close> points to is a record device with its element list, or a paint
  device of another class.
\<close>

datatype QPaintDevice = RecordPaintDevice "PaintElement list" | OtherPaintDevice

type_synonym device_heap = "ptr \<rightharpoonup> QPaintDevice"

text \<open>Whether a handle resolves to a record device.\<close>

definition is_RecordPaintDevice :: "device_heap \<Rightarrow> ptr \<Rightarrow> bool" where
  "is_RecordPaintDevice h p =
     (p \<noteq> 0 \<and> (case h p of Some (RecordPaintDevice els) \<Rightarrow> True | _ \<Rightarrow> False))"

text \<open>
  Modelled from the spec: \<^verbatim>\<open>RecordPaintDevice::addElement\<close> is declared in
  recordpaintdevice.h, which is not among the sources. By the spec it forwards to the
  append of the device's command log: the element is added at the end of the sequence.
  Calling it through a pointer that is null or does not point to a record device is
  undefined behaviour in C++; here it is \<open>None\<close>.
\<close>

definition addElement :: "ptr \<Rightarrow> PaintElement \<Rightarrow> device_heap \<Rightarrow> device_heap option" where
  "addElement p e h =
     (if p = 0 then None
      else (case h p of
              Some (RecordPaintDevice els) \<Rightarrow> Some (h(p \<mapsto> RecordPaintDevice (els @ [e])))
            | _ \<Rightarrow> None))"

subsection \<open>The engine\<close>

record RecordPaintEngine =
  pdev :: ptr

text \<open>The constructor: \<^verbatim>\<open>_pdev(0)\<close>.\<close>

definition new_RecordPaintEngine :: RecordPaintEngine where
  "new_RecordPaintEngine = \<lparr>pdev = 0\<rparr>"

text \<open>
  The specification's Idle state, in its words "no bound surface; initial": the
  engine holds the null pointer, as the constructor leaves it.
\<close>

definition is_idle :: "RecordPaintEngine \<Rightarrow> bool" where
  "is_idle eng = (pdev eng = 0)"

text \<open>
  \<^verbatim>\<open>begin(pdev)\<close> stores the handle by the unchecked cast
  \<^verbatim>\<open>_pdev = (RecordPaintDevice*)(pdev)\<close> and returns 1; \<^verbatim>\<open>end()\<close> returns 1.
  Both are given the engine and the device heap, and return the boolean, the engine
  and the device heap as the call leaves them.
\<close>

definition engine_begin ::
  "RecordPaintEngine \<Rightarrow> ptr \<Rightarrow> device_heap \<Rightarrow> bool \<times> RecordPaintEngine \<times> device_heap" where
  "engine_begin eng p h = (True, eng\<lparr>pdev := p\<rparr>, h)"

definition engine_end ::
  "RecordPaintEngine \<Rightarrow> device_heap \<Rightarrow> bool \<times> RecordPaintEngine \<times> device_heap" where
  "engine_end eng h = (True, eng, h)"

text \<open>
  Modelled from the spec: the enumerators \<^verbatim>\<open>User\<close> and \<^verbatim>\<open>MaxUser\<close> of Qt's
  \<^verbatim>\<open>QPaintEngine::Type\<close> are declared in Qt's qpaintengine.h, which is not among the
  sources. By the spec the identifiers of the built-in renderers lie in a reserved
  range, below the base of the user-defined ones; the values are those of Qt's
  declaration, \<^verbatim>\<open>User = 50\<close> and \<^verbatim>\<open>MaxUser = 100\<close>.
\<close>

definition QPaintEngine_User :: "32 word" where
  "QPaintEngine_User = 50"

definition QPaintEngine_MaxUser :: "32 word" where
  "QPaintEngine_MaxUser = 100"

definition engine_type :: "RecordPaintEngine \<Rightarrow> 32 word" where
  "engine_type eng = QPaintEngine_User + 34"

text \<open>The drawing notifications: each adds one new element to the device's list.\<close>

definition drawEllipse_QRectF :: "RecordPaintEngine \<Rightarrow> QRectF \<Rightarrow> device_heap \<Rightarrow> device_heap option" where
  "drawEllipse_QRectF eng rect h = addElement (pdev eng) (EllipseElement rect) h"

definition drawEllipse_QRect :: "RecordPaintEngine \<Rightarrow> QRect \<Rightarrow> device_heap \<Rightarrow> device_heap option" where
  "drawEllipse_QRect eng rect h = addElement (pdev eng) (EllipseElement (QRectF_of_QRect rect)) h"

definition drawImage ::
  "RecordPaintEngine \<Rightarrow> QRectF \<Rightarrow> QImage \<Rightarrow> QRectF \<Rightarrow> ImageConversionFlags \<Rightarrow> device_heap \<Rightarrow> device_heap option" where
  "drawImage eng rectangle img sr flags h =
     addElement (pdev eng) (ImageElement rectangle img sr flags) h"

definition drawLines_QLineF ::
  "RecordPaintEngine \<Rightarrow> QLineF array_mem \<Rightarrow> ptr \<Rightarrow> int \<Rightarrow> device_heap \<Rightarrow> device_heap option" where
  "drawLines_QLineF eng mem lines lineCount h =
     (case lineElement mem lines lineCount of
        None \<Rightarrow> None
      | Some ls \<Rightarrow> addElement (pdev eng) (LineFElement ls) h)"

definition drawLines_QLine ::
  "RecordPaintEngine \<Rightarrow> QLine array_mem \<Rightarrow> ptr \<Rightarrow> int \<Rightarrow> device_heap \<Rightarrow> device_heap option" where
  "drawLines_QLine eng mem lines lineCount h =
     (case lineElement mem lines lineCount of
        None \<Rightarrow> None
      | Some ls \<Rightarrow> addElement (pdev eng) (LineElement ls) h)"

definition drawPath :: "RecordPaintEngine \<Rightarrow> QPainterPath \<Rightarrow> device_heap \<Rightarrow> device_heap option" where
  "drawPath eng path h = addElement (pdev eng) (PathElement path) h"

definition drawPixmap ::
  "RecordPaintEngine \<Rightarrow> QRectF \<Rightarrow> QPixmap \<Rightarrow> QRectF \<Rightarrow> device_heap \<Rightarrow> device_heap option" where
  "drawPixmap eng r pm sr h = addElement (pdev eng) (PixmapElement r pm sr) h"

definition drawPoints_QPointF ::
  "RecordPaintEngine \<Rightarrow> QPointF array_mem \<Rightarrow> ptr \<Rightarrow> int \<Rightarrow> device_heap \<Rightarrow> device_heap option" where
  "drawPoints_QPointF eng mem points pointCount h =
     (case pointElement mem points pointCount of
        None \<Rightarrow> None
      | Some pts \<Rightarrow> addElement (pdev eng) (PointFElement pts) h)"

definition drawPoints_QPoint ::
  "RecordPaintEngine \<Rightarrow> QPoint array_mem \<Rightarrow> ptr \<Rightarrow> int \<Rightarrow> device_heap \<Rightarrow> device_heap option" where
  "drawPoints_QPoint eng mem points pointCount h =
     (case pointElement mem points pointCount of
        None \<Rightarrow> None
      | Some pts \<Rightarrow> addElement (pdev eng) (PointElement pts) h)"

definition drawPolygon_QPointF ::
  "RecordPaintEngine \<Rightarrow> QPointF array_mem \<Rightarrow> ptr \<Rightarrow> int \<Rightarrow> PolygonDrawMode \<Rightarrow> device_heap \<Rightarrow> device_heap option" where
  "drawPolygon_QPointF eng mem points pointCount mode h =
     (case polyElement mem points pointCount mode of
        None \<Rightarrow> None
      | Some (m, pts) \<Rightarrow> addElement (pdev eng) (PolygonFElement m pts) h)"

definition drawPolygon_QPoint ::
  "RecordPaintEngine \<Rightarrow> QPoint array_mem \<Rightarrow> ptr \<Rightarrow> int \<Rightarrow> PolygonDrawMode \<Rightarrow> device_heap \<Rightarrow> device_heap option" where
  "drawPolygon_QPoint eng mem points pointCount mode h =
     (case polyElement mem points pointCount mode of
        None \<Rightarrow> None
      | Some (m, pts) \<Rightarrow> addElement (pdev eng) (PolygonElement m pts) h)"

definition drawRects_QRectF ::
  "RecordPaintEngine \<Rightarrow> QRectF array_mem \<Rightarrow> ptr \<Rightarrow> int \<Rightarrow> device_heap \<Rightarrow> device_heap option" where
  "drawRects_QRectF eng mem rects rectCount h =
     (case rectElement mem rects rectCount of
        None \<Rightarrow> None
      | Some rs \<Rightarrow> addElement (pdev eng) (RectFElement rs) h)"

definition drawRects_QRect ::
  "RecordPaintEngine \<Rightarrow> QRect array_mem \<Rightarrow> ptr \<Rightarrow> int \<Rightarrow> device_heap \<Rightarrow> device_heap option" where
  "drawRects_QRect eng mem rects rectCount h =
     (case rectElement mem rects rectCount of
        None \<Rightarrow> None
      | Some rs \<Rightarrow> addElement (pdev eng) (RectElement rs) h)"

definition drawTextItem ::
  "RecordPaintEngine \<Rightarrow> QPointF \<Rightarrow> QTextItem \<Rightarrow> device_heap \<Rightarrow> device_heap option" where
  "drawTextItem eng p textItem h = addElement (pdev eng) (mk_TextElement p textItem) h"

definition drawTiledPixmap ::
  "RecordPaintEngine \<Rightarrow> QRectF \<Rightarrow> QPixmap \<Rightarrow> QPointF \<Rightarrow> device_heap \<Rightarrow> device_heap option" where
  "drawTiledPixmap eng rect pixmap p h = addElement (pdev eng) (TiledPixmapElement rect pixmap p) h"

subsection \<open>State changes\<close>

text \<open>
  Modelled from the spec: \<^verbatim>\<open>QPaintEngine::DirtyFlag\<close> is declared in Qt's
  qpaintengine.h, which is not among the sources. By the spec the notification carries
  a bit-set of independent dirty flags, one per painter attribute; the bit values are
  those of Qt's declaration. \<^verbatim>\<open>DirtyOpacity\<close> is a flag the engine does not look at.
\<close>

definition DirtyPen :: "32 word" where "DirtyPen = 0x0001"
definition DirtyBrush :: "32 word" where "DirtyBrush = 0x0002"
definition DirtyBrushOrigin :: "32 word" where "DirtyBrushOrigin = 0x0004"
definition DirtyFont :: "32 word" where "DirtyFont = 0x0008"
definition DirtyBackground :: "32 word" where "DirtyBackground = 0x0010"
definition DirtyBackgroundMode :: "32 word" where "DirtyBackgroundMode = 0x0020"
definition DirtyTransform :: "32 word" where "DirtyTransform = 0x0040"
definition DirtyClipRegion :: "32 word" where "DirtyClipRegion = 0x0080"
definition DirtyClipPath :: "32 word" where "DirtyClipPath = 0x0100"
definition DirtyHints :: "32 word" where "DirtyHints = 0x0200"
definition DirtyCompositionMode :: "32 word" where "DirtyCompositionMode = 0x0400"
definition DirtyClipEnabled :: "32 word" where "DirtyClipEnabled = 0x0800"
definition DirtyOpacity :: "32 word" where "DirtyOpacity = 0x1000"

text \<open>\<^verbatim>\<open>QPaintEngineState\<close>: the dirty flags and the current value of each attribute.\<close>

record QPaintEngineState =
  state :: "32 word"
  backgroundBrush :: QBrush
  backgroundMode :: BGMode
  brush :: QBrush
  brushOrigin :: QPointF
  clipOperation :: ClipOperation
  clipRegion :: QRegion
  clipPath :: QPainterPath
  compositionMode :: CompositionMode
  font :: QFont
  transform :: QTransform
  isClipEnabled :: bool
  pen :: QPen
  renderHints :: RenderHints

text \<open>\<^verbatim>\<open>if( flags & Flag ) statement;\<close>\<close>

definition if_dirty ::
  "32 word \<Rightarrow> 32 word \<Rightarrow> (device_heap \<Rightarrow> device_heap option) \<Rightarrow> device_heap \<Rightarrow> device_heap option" where
  "if_dirty flags flag stmt h = (if flags AND flag \<noteq> 0 then stmt h else Some h)"

definition updateState ::
  "RecordPaintEngine \<Rightarrow> QPaintEngineState \<Rightarrow> device_heap \<Rightarrow> device_heap option" where
  "updateState eng st h =
     (let flags = state st in
      if_dirty flags DirtyBackground
        (addElement (pdev eng) (BackgroundBrushElement (backgroundBrush st))) h
      \<bind> if_dirty flags DirtyBackgroundMode
        (addElement (pdev eng) (BackgroundModeElement (backgroundMode st)))
      \<bind> if_dirty flags DirtyBrush
        (addElement (pdev eng) (BrushElement (brush st)))
      \<bind> if_dirty flags DirtyBrushOrigin
        (addElement (pdev eng) (BrushOriginElement (brushOrigin st)))
      \<bind> if_dirty flags DirtyClipRegion
        (addElement (pdev eng) (ClipRegionElement (clipOperation st) (clipRegion st)))
      \<bind> if_dirty flags DirtyClipPath
        (addElement (pdev eng) (ClipPathElement (clipOperation st) (clipPath st)))
      \<bind> if_dirty flags DirtyCompositionMode
        (addElement (pdev eng) (CompositionElement (compositionMode st)))
      \<bind> if_dirty flags DirtyFont
        (addElement (pdev eng) (FontElement (font st)))
      \<bind> if_dirty flags DirtyTransform
        (addElement (pdev eng) (TransformElement (transform st)))
      \<bind> if_dirty flags DirtyClipEnabled
        (addElement (pdev eng) (ClipEnabledElement (isClipEnabled st)))
      \<bind> if_dirty flags DirtyPen
        (addElement (pdev eng) (PenElement (pen st)))
      \<bind> if_dirty flags DirtyHints
        (addElement (pdev eng) (HintsElement (renderHints st))))"

text \<open>
  The specification's reading of a state-change notification, for comparison with
  \<open>updateState\<close>: the twelve attributes in the order the specification enumerates
  them, each with the command carrying its current value, and of these the commands of
  the flags that are set.
\<close>

definition spec_flag_table :: "QPaintEngineState \<Rightarrow> (32 word \<times> PaintElement) list" where
  "spec_flag_table st =
     [(DirtyBackground, BackgroundBrushElement (backgroundBrush st)),
      (DirtyBackgroundMode, BackgroundModeElement (backgroundMode st)),
      (DirtyBrush, BrushElement (brush st)),
      (DirtyBrushOrigin, BrushOriginElement (brushOrigin st)),
      (DirtyClipRegion, ClipRegionElement (clipOperation st) (clipRegion st)),
      (DirtyClipPath, ClipPathElement (clipOperation st) (clipPath st)),
      (DirtyCompositionMode, CompositionElement (compositionMode st)),
      (DirtyFont, FontElement (font st)),
      (DirtyTransform, TransformElement (transform st)),
      (DirtyClipEnabled, ClipEnabledElement (isClipEnabled st)),
      (DirtyPen, PenElement (pen st)),
      (DirtyHints, HintsElement (renderHints st))]"

definition spec_state_commands :: "QPaintEngineState \<Rightarrow> PaintElement list" where
  "spec_state_commands st =
     map snd (filter (\<lambda>(flag, c). state st AND flag \<noteq> 0) (spec_flag_table st))"

subsection \<open>Auxiliary notions and example data\<close>

text \<open>
  The two kinds of clip command, to select them from a sequence of elements.
\<close>

fun is_clip_element :: "PaintElement \<Rightarrow> bool" where
  "is_clip_element (ClipRegionElement op region) = True"
| "is_clip_element (ClipPathElement op region) = True"
| "is_clip_element e = False"

text \<open>
  An engine bound to a record device that holds one element already, beside a paint
  device of another class; a state with given dirty flags; caller arrays; a text item.
\<close>

definition example_engine :: RecordPaintEngine where
  "example_engine = \<lparr>pdev = 5\<rparr>"

definition example_devices :: device_heap where
  "example_devices = [5 \<mapsto> RecordPaintDevice [EllipseElement (QRectF 0 0 1 1)], 6 \<mapsto> OtherPaintDevice]"

definition example_state :: "32 word \<Rightarrow> QPaintEngineState" where
  "example_state flags =
     \<lparr>state = flags, backgroundBrush = QBrush 1, backgroundMode = OpaqueMode,
      brush = QBrush 2, brushOrigin = QPointF 3 4, clipOperation = IntersectClip,
      clipRegion = QRegion 5, clipPath = QPainterPath 6, compositionMode = 7,
      font = QFont 8, transform = QTransform 1 0 0 0 1 0 9 9 1, isClipEnabled = True,
      pen = QPen 10, renderHints = 11\<rparr>"

definition example_linesF :: "QLineF array_mem" where
  "example_linesF = [100 \<mapsto> QLineF (QPointF 0 0) (QPointF 1 1), 101 \<mapsto> QLineF (QPointF 2 2) (QPointF 3 3)]"

definition example_lines :: "QLine array_mem" where
  "example_lines = [100 \<mapsto> QLine (QPoint 0 0) (QPoint 1 1), 101 \<mapsto> QLine (QPoint 2 2) (QPoint 3 3)]"

definition example_pointsF :: "QPointF array_mem" where
  "example_pointsF = [200 \<mapsto> QPointF 0 0, 201 \<mapsto> QPointF 4 0, 202 \<mapsto> QPointF 1 1, 203 \<mapsto> QPointF 0 4]"

definition example_points :: "QPoint array_mem" where
  "example_points = [200 \<mapsto> QPoint 0 0, 201 \<mapsto> QPoint 4 0, 202 \<mapsto> QPoint 1 1, 203 \<mapsto> QPoint 0 4]"

definition example_rectsF :: "QRectF array_mem" where
  "example_rectsF = [300 \<mapsto> QRectF 0 0 2 1]"

definition example_rects :: "QRect array_mem" where
  "example_rects = [300 \<mapsto> QRect 0 0 2 1]"

definition example_textItem :: QTextItem where
  "example_textItem =
     \<lparr>item_text = ''abc'', item_font = QFont 8, item_renderFlags = 0,
      item_width = 30, item_ascent = 9, item_descent = 2\<rparr>"

section \<open>Auxiliary lemmas\<close>

lemma addElement_bound:
  "p \<noteq> 0 \<Longrightarrow> h p = Some (RecordPaintDevice els) \<Longrightarrow>
   addElement p e h = Some (h(p \<mapsto> RecordPaintDevice (els @ [e])))"
  by (simp add: addElement_def)

lemma if_dirty_step:
  "p \<noteq> 0 \<Longrightarrow>
   if_dirty flags flag (addElement p e) (h(p \<mapsto> RecordPaintDevice els)) =
     Some (h(p \<mapsto> RecordPaintDevice (els @ (if flags AND flag \<noteq> 0 then [e] else []))))"
  by (simp add: if_dirty_def addElement_def)

lemma commands_Cons:
  "map snd (filter (\<lambda>(flag, c). w AND flag \<noteq> 0) ((f, e) # rest)) =
     (if w AND f \<noteq> 0 then [e] else []) @ map snd (filter (\<lambda>(flag, c). w AND flag \<noteq> 0) rest)"
  by simp

lemma spec_state_commands_unfold:
  "spec_state_commands st =
     (if state st AND DirtyBackground \<noteq> 0 then [BackgroundBrushElement (backgroundBrush st)] else []) @
     (if state st AND DirtyBackgroundMode \<noteq> 0 then [BackgroundModeElement (backgroundMode st)] else []) @
     (if state st AND DirtyBrush \<noteq> 0 then [BrushElement (brush st)] else []) @
     (if state st AND DirtyBrushOrigin \<noteq> 0 then [BrushOriginElement (brushOrigin st)] else []) @
     (if state st AND DirtyClipRegion \<noteq> 0 then [ClipRegionElement (clipOperation st) (clipRegion st)] else []) @
     (if state st AND DirtyClipPath \<noteq> 0 then [ClipPathElement (clipOperation st) (clipPath st)] else []) @
     (if state st AND DirtyCompositionMode \<noteq> 0 then [CompositionElement (compositionMode st)] else []) @
     (if state st AND DirtyFont \<noteq> 0 then [FontElement (font st)] else []) @
     (if state st AND DirtyTransform \<noteq> 0 then [TransformElement (transform st)] else []) @
     (if state st AND DirtyClipEnabled \<noteq> 0 then [ClipEnabledElement (isClipEnabled st)] else []) @
     (if state st AND DirtyPen \<noteq> 0 then [PenElement (pen st)] else []) @
     (if state st AND DirtyHints \<noteq> 0 then [HintsElement (renderHints st)] else [])"
  unfolding spec_state_commands_def spec_flag_table_def
  by (simp only: commands_Cons filter.simps(1) list.map(1) append_Nil2)

lemma updateState_bound:
  assumes "pdev eng \<noteq> 0" and "h (pdev eng) = Some (RecordPaintDevice els)"
  shows "updateState eng st h =
           Some (h(pdev eng \<mapsto> RecordPaintDevice (els @ spec_state_commands st)))"
proof -
  have h: "h = h(pdev eng \<mapsto> RecordPaintDevice els)"
    using assms(2) by (simp add: map_upd_triv)
  have "updateState eng st (h(pdev eng \<mapsto> RecordPaintDevice els)) =
           Some (h(pdev eng \<mapsto> RecordPaintDevice (els @ spec_state_commands st)))"
    unfolding updateState_def Let_def spec_state_commands_unfold
    by (simp only: if_dirty_step [OF assms(1)] bind.bind_lunit append_assoc)
  with h show ?thesis by simp
qed

lemma buffer_holds_nth:
  "buffer_holds mem p xs \<Longrightarrow> k < length xs \<Longrightarrow> mem (p + k) = Some (xs ! k)"
  by (simp add: buffer_holds_def list_all_iff)

lemma append_loop_copies:
  assumes "buffer_holds mem p xs"
  shows "0 \<le> i \<Longrightarrow> nat i \<le> length xs \<Longrightarrow>
         append_loop mem p (int (length xs)) i vec = Some (vec @ drop (nat i) xs)"
proof (induction "length xs - nat i" arbitrary: i vec)
  case 0
  then show ?case by simp
next
  case (Suc d)
  then have lt: "nat i < length xs" and i: "i < int (length xs)" by linarith+
  have cell: "mem (p + nat i) = Some (xs ! nat i)"
    using assms lt by (rule buffer_holds_nth)
  have nxt: "nat (i + 1) = Suc (nat i)" using Suc.prems(1) by simp
  have "append_loop mem p (int (length xs)) (i + 1) (vec @ [xs ! nat i]) =
          Some ((vec @ [xs ! nat i]) @ drop (nat (i + 1)) xs)"
    using Suc.hyps(2) Suc.prems lt by (intro Suc.hyps(1)) simp_all
  then show ?case
    using i cell lt by (subst append_loop.simps) (simp add: nxt Cons_nth_drop_Suc)
qed

lemma append_loop_all:
  "buffer_holds mem p xs \<Longrightarrow> append_loop mem p (int (length xs)) 0 [] = Some xs"
  using append_loop_copies [of mem p xs 0 "[]"] by simp

lemma append_loop_none: "count \<le> 0 \<Longrightarrow> append_loop mem p count 0 [] = Some []"
  by simp

lemma paint_one_call: "\<exists>c. \<forall>painter. paint e painter = (e, painter @ [c])"
proof (cases e)
  case (PolygonElement mode pts)
  then show ?thesis by (cases mode) simp_all
next
  case (PolygonFElement mode pts)
  then show ?thesis by (cases mode) simp_all
qed simp_all

lemma engine_begin_result:
  "fst (engine_begin eng p h) = True
   \<and> pdev (fst (snd (engine_begin eng p h))) = p
   \<and> snd (snd (engine_begin eng p h)) = h"
  by (simp add: engine_begin_def)

lemma updateState_ignores_DirtyOpacity:
  "state st = DirtyOpacity \<Longrightarrow> updateState eng st h = Some h"
  by (simp add: updateState_def if_dirty_def DirtyOpacity_def
      DirtyBackground_def DirtyBackgroundMode_def DirtyBrush_def
      DirtyBrushOrigin_def DirtyClipRegion_def DirtyClipPath_def DirtyCompositionMode_def
      DirtyFont_def DirtyTransform_def DirtyClipEnabled_def DirtyPen_def DirtyHints_def)

section \<open>Properties\<close>

text \<open>
  C1: a state-change notification appends, to the list of the bound record device,
  exactly the commands of the dirty flags that are set, one per flag, each carrying
  the current value of its attribute, in the order background brush, background mode,
  brush, brush origin, clip region, clip path, composition mode, font, transform,
  clip enabled, pen, render hints; a flag that is not set contributes nothing. With
  the flags transform and font alone, two commands are appended, the font command
  before the transform command.
\<close>

theorem updateState_one_command_per_dirty_flag:
  assumes "pdev eng \<noteq> 0" and "h (pdev eng) = Some (RecordPaintDevice els)"
  shows "updateState eng st h =
           Some (h(pdev eng \<mapsto> RecordPaintDevice (els @ spec_state_commands st)))
       \<and> length (spec_state_commands st) =
           length (filter (\<lambda>flag. state st AND flag \<noteq> 0) (map fst (spec_flag_table st)))
       \<and> (state st = DirtyTransform OR DirtyFont \<longrightarrow>
            spec_state_commands st = [FontElement (font st), TransformElement (transform st)])"
proof (intro conjI impI)
  show "updateState eng st h =
           Some (h(pdev eng \<mapsto> RecordPaintDevice (els @ spec_state_commands st)))"
    using assms by (rule updateState_bound)
  show "length (spec_state_commands st) =
           length (filter (\<lambda>flag. state st AND flag \<noteq> 0) (map fst (spec_flag_table st)))"
    by (simp add: spec_state_commands_def filter_map o_def split_def)
  assume "state st = DirtyTransform OR DirtyFont"
  then have "state st = 0x48"
    by (simp add: DirtyTransform_def DirtyFont_def)
  then show "spec_state_commands st = [FontElement (font st), TransformElement (transform st)]"
    unfolding spec_state_commands_unfold
    by (simp add: DirtyBackground_def DirtyBackgroundMode_def DirtyBrush_def
        DirtyBrushOrigin_def DirtyClipRegion_def DirtyClipPath_def DirtyCompositionMode_def
        DirtyFont_def DirtyTransform_def DirtyClipEnabled_def DirtyPen_def DirtyHints_def)
qed

theorem updateState_transform_font_witness:
  "pdev example_engine \<noteq> 0
   \<and> example_devices (pdev example_engine) = Some (RecordPaintDevice [EllipseElement (QRectF 0 0 1 1)])
   \<and> state (example_state (DirtyTransform OR DirtyFont)) = DirtyTransform OR DirtyFont
   \<and> updateState example_engine (example_state (DirtyTransform OR DirtyFont)) example_devices =
       Some (example_devices(5 \<mapsto> RecordPaintDevice
         [EllipseElement (QRectF 0 0 1 1), FontElement (QFont 8),
          TransformElement (QTransform 1 0 0 0 1 0 9 9 1)]))"
  using updateState_one_command_per_dirty_flag [of example_engine example_devices "[EllipseElement (QRectF 0 0 1 1)]"
      "example_state (DirtyTransform OR DirtyFont)"]
  by (simp add: example_engine_def example_devices_def example_state_def)

text \<open>
  C2: \<^verbatim>\<open>begin\<close> should return false for a handle that does not resolve to a
  record device. The code casts the handle without a check (its comment says it
  probably should use \<^verbatim>\<open>dynamic_cast\<close>) and returns true. Evaluated at handle 6, a
  paint device of another class: \<^verbatim>\<open>begin\<close> returns true, and a drawing notification
  through the engine then has no defined result.
\<close>

theorem begin_succeeds_on_foreign_device:
  "\<not> is_RecordPaintDevice example_devices 6
   \<and> fst (engine_begin new_RecordPaintEngine 6 example_devices) = True
   \<and> drawEllipse_QRectF (fst (snd (engine_begin new_RecordPaintEngine 6 example_devices)))
         (QRectF 0 0 1 1) example_devices = None"
  by (simp add: is_RecordPaintDevice_def example_devices_def engine_begin_def
      drawEllipse_QRectF_def addElement_def)

text \<open>
  C3: a batch notification (lines, points, rectangles, polygon; both overloads of
  each) whose array holds the elements \<open>xs\<close>, called with their count, appends one
  command that holds \<open>xs\<close> itself: the values read during the call, not the address
  of the array. Painting the command calls the painter with exactly \<open>xs\<close>; the
  caller's memory is no argument of \<open>paint\<close>, so no later change to it is seen.
\<close>

theorem batch_commands_hold_the_elements:
  assumes "pdev eng \<noteq> 0" and "h (pdev eng) = Some (RecordPaintDevice els)"
  shows
   "(buffer_holds memLF pLF linesF \<longrightarrow>
       drawLines_QLineF eng memLF pLF (int (length linesF)) h =
         Some (h(pdev eng \<mapsto> RecordPaintDevice (els @ [LineFElement linesF])))
       \<and> paint (LineFElement linesF) painter = (LineFElement linesF, painter @ [DrawLinesF linesF]))
  \<and> (buffer_holds memL pL lines \<longrightarrow>
       drawLines_QLine eng memL pL (int (length lines)) h =
         Some (h(pdev eng \<mapsto> RecordPaintDevice (els @ [LineElement lines])))
       \<and> paint (LineElement lines) painter = (LineElement lines, painter @ [DrawLines lines]))
  \<and> (buffer_holds memPF pPF pointsF \<longrightarrow>
       drawPoints_QPointF eng memPF pPF (int (length pointsF)) h =
         Some (h(pdev eng \<mapsto> RecordPaintDevice (els @ [PointFElement pointsF])))
       \<and> paint (PointFElement pointsF) painter = (PointFElement pointsF, painter @ [DrawPointsF pointsF]))
  \<and> (buffer_holds memP pP points \<longrightarrow>
       drawPoints_QPoint eng memP pP (int (length points)) h =
         Some (h(pdev eng \<mapsto> RecordPaintDevice (els @ [PointElement points])))
       \<and> paint (PointElement points) painter = (PointElement points, painter @ [DrawPoints points]))
  \<and> (buffer_holds memRF pRF rectsF \<longrightarrow>
       drawRects_QRectF eng memRF pRF (int (length rectsF)) h =
         Some (h(pdev eng \<mapsto> RecordPaintDevice (els @ [RectFElement rectsF])))
       \<and> paint (RectFElement rectsF) painter = (RectFElement rectsF, painter @ [DrawRectsF rectsF]))
  \<and> (buffer_holds memR pR rects \<longrightarrow>
       drawRects_QRect eng memR pR (int (length rects)) h =
         Some (h(pdev eng \<mapsto> RecordPaintDevice (els @ [RectElement rects])))
       \<and> paint (RectElement rects) painter = (RectElement rects, painter @ [DrawRects rects]))
  \<and> (buffer_holds memPF pPF pointsF \<longrightarrow>
       drawPolygon_QPointF eng memPF pPF (int (length pointsF)) mode h =
         Some (h(pdev eng \<mapsto> RecordPaintDevice (els @ [PolygonFElement mode pointsF])))
       \<and> snd (paint (PolygonFElement mode pointsF) painter) =
           painter @ [case mode of
                        OddEvenMode \<Rightarrow> DrawPolygonF pointsF OddEvenFill
                      | WindingMode \<Rightarrow> DrawPolygonF pointsF WindingFill
                      | ConvexMode \<Rightarrow> DrawConvexPolygonF pointsF
                      | PolylineMode \<Rightarrow> DrawPolylineF pointsF])
  \<and> (buffer_holds memP pP points \<longrightarrow>
       drawPolygon_QPoint eng memP pP (int (length points)) mode h =
         Some (h(pdev eng \<mapsto> RecordPaintDevice (els @ [PolygonElement mode points])))
       \<and> snd (paint (PolygonElement mode points) painter) =
           painter @ [case mode of
                        OddEvenMode \<Rightarrow> DrawPolygon points OddEvenFill
                      | WindingMode \<Rightarrow> DrawPolygon points WindingFill
                      | ConvexMode \<Rightarrow> DrawConvexPolygon points
                      | PolylineMode \<Rightarrow> DrawPolyline points])"
proof -
  note dev = addElement_bound [of "pdev eng" h els, OF assms]
  have polyF: "snd (paint (PolygonFElement mode pointsF) painter) =
           painter @ [case mode of
                        OddEvenMode \<Rightarrow> DrawPolygonF pointsF OddEvenFill
                      | WindingMode \<Rightarrow> DrawPolygonF pointsF WindingFill
                      | ConvexMode \<Rightarrow> DrawConvexPolygonF pointsF
                      | PolylineMode \<Rightarrow> DrawPolylineF pointsF]"
    by (cases mode) simp_all
  have poly: "snd (paint (PolygonElement mode points) painter) =
           painter @ [case mode of
                        OddEvenMode \<Rightarrow> DrawPolygon points OddEvenFill
                      | WindingMode \<Rightarrow> DrawPolygon points WindingFill
                      | ConvexMode \<Rightarrow> DrawConvexPolygon points
                      | PolylineMode \<Rightarrow> DrawPolyline points]"
    by (cases mode) simp_all
  show ?thesis
    unfolding polyF poly
    by (simp add: drawLines_QLineF_def drawLines_QLine_def drawPoints_QPointF_def
        drawPoints_QPoint_def drawRects_QRectF_def drawRects_QRect_def
        drawPolygon_QPointF_def drawPolygon_QPoint_def
        lineElement_def pointElement_def rectElement_def polyElement_def
        append_loop_all dev del: append_loop.simps)
qed

theorem batch_commands_witness:
  "pdev example_engine \<noteq> 0
   \<and> example_devices (pdev example_engine) = Some (RecordPaintDevice [EllipseElement (QRectF 0 0 1 1)])
   \<and> buffer_holds example_linesF 100 [QLineF (QPointF 0 0) (QPointF 1 1), QLineF (QPointF 2 2) (QPointF 3 3)]
   \<and> buffer_holds example_lines 100 [QLine (QPoint 0 0) (QPoint 1 1), QLine (QPoint 2 2) (QPoint 3 3)]
   \<and> buffer_holds example_pointsF 200 [QPointF 0 0, QPointF 4 0, QPointF 1 1, QPointF 0 4]
   \<and> buffer_holds example_points 200 [QPoint 0 0, QPoint 4 0, QPoint 1 1, QPoint 0 4]
   \<and> buffer_holds example_rectsF 300 [QRectF 0 0 2 1]
   \<and> buffer_holds example_rects 300 [QRect 0 0 2 1]
   \<and> drawLines_QLineF example_engine example_linesF 100 2 example_devices =
       Some (example_devices(5 \<mapsto> RecordPaintDevice
         [EllipseElement (QRectF 0 0 1 1),
          LineFElement [QLineF (QPointF 0 0) (QPointF 1 1), QLineF (QPointF 2 2) (QPointF 3 3)]]))
   \<and> snd (paint (LineFElement [QLineF (QPointF 0 0) (QPointF 1 1), QLineF (QPointF 2 2) (QPointF 3 3)]) []) =
       [DrawLinesF [QLineF (QPointF 0 0) (QPointF 1 1), QLineF (QPointF 2 2) (QPointF 3 3)]]
   \<and> drawLines_QLine example_engine example_lines 100 2 example_devices =
       Some (example_devices(5 \<mapsto> RecordPaintDevice
         [EllipseElement (QRectF 0 0 1 1),
          LineElement [QLine (QPoint 0 0) (QPoint 1 1), QLine (QPoint 2 2) (QPoint 3 3)]]))
   \<and> drawPoints_QPointF example_engine example_pointsF 200 4 example_devices =
       Some (example_devices(5 \<mapsto> RecordPaintDevice
         [EllipseElement (QRectF 0 0 1 1),
          PointFElement [QPointF 0 0, QPointF 4 0, QPointF 1 1, QPointF 0 4]]))
   \<and> drawPoints_QPoint example_engine example_points 200 4 example_devices =
       Some (example_devices(5 \<mapsto> RecordPaintDevice
         [EllipseElement (QRectF 0 0 1 1),
          PointElement [QPoint 0 0, QPoint 4 0, QPoint 1 1, QPoint 0 4]]))
   \<and> drawRects_QRectF example_engine example_rectsF 300 1 example_devices =
       Some (example_devices(5 \<mapsto> RecordPaintDevice
         [EllipseElement (QRectF 0 0 1 1), RectFElement [QRectF 0 0 2 1]]))
   \<and> drawRects_QRect example_engine example_rects 300 1 example_devices =
       Some (example_devices(5 \<mapsto> RecordPaintDevice
         [EllipseElement (QRectF 0 0 1 1), RectElement [QRect 0 0 2 1]]))
   \<and> drawPolygon_QPointF example_engine example_pointsF 200 4 ConvexMode example_devices =
       Some (example_devices(5 \<mapsto> RecordPaintDevice
         [EllipseElement (QRectF 0 0 1 1),
          PolygonFElement ConvexMode [QPointF 0 0, QPointF 4 0, QPointF 1 1, QPointF 0 4]]))
   \<and> drawPolygon_QPoint example_engine example_points 200 4 PolylineMode example_devices =
       Some (example_devices(5 \<mapsto> RecordPaintDevice
         [EllipseElement (QRectF 0 0 1 1),
          PolygonElement PolylineMode [QPoint 0 0, QPoint 4 0, QPoint 1 1, QPoint 0 4]]))"
proof -
  have dev: "pdev example_engine \<noteq> 0"
    "example_devices (pdev example_engine) = Some (RecordPaintDevice [EllipseElement (QRectF 0 0 1 1)])"
    by (simp_all add: example_engine_def example_devices_def)
  have bufs:
    "buffer_holds example_linesF 100 [QLineF (QPointF 0 0) (QPointF 1 1), QLineF (QPointF 2 2) (QPointF 3 3)]"
    "buffer_holds example_lines 100 [QLine (QPoint 0 0) (QPoint 1 1), QLine (QPoint 2 2) (QPoint 3 3)]"
    "buffer_holds example_pointsF 200 [QPointF 0 0, QPointF 4 0, QPointF 1 1, QPointF 0 4]"
    "buffer_holds example_points 200 [QPoint 0 0, QPoint 4 0, QPoint 1 1, QPoint 0 4]"
    "buffer_holds example_rectsF 300 [QRectF 0 0 2 1]"
    "buffer_holds example_rects 300 [QRect 0 0 2 1]"
    by (simp_all add: buffer_holds_def example_linesF_def example_lines_def example_pointsF_def
        example_points_def example_rectsF_def example_rects_def upt_rec [of 0] upt_rec [of "Suc _"])
  have pd: "pdev example_engine = 5" by (simp add: example_engine_def)
  show ?thesis
    using dev bufs
      batch_commands_hold_the_elements [where eng = example_engine and h = example_devices
        and els = "[EllipseElement (QRectF 0 0 1 1)]" and painter = "[]" and mode = ConvexMode
        and memLF = example_linesF and pLF = 100
        and linesF = "[QLineF (QPointF 0 0) (QPointF 1 1), QLineF (QPointF 2 2) (QPointF 3 3)]"
        and memL = example_lines and pL = 100
        and lines = "[QLine (QPoint 0 0) (QPoint 1 1), QLine (QPoint 2 2) (QPoint 3 3)]"
        and memPF = example_pointsF and pPF = 200
        and pointsF = "[QPointF 0 0, QPointF 4 0, QPointF 1 1, QPointF 0 4]"
        and memP = example_points and pP = 200
        and points = "[QPoint 0 0, QPoint 4 0, QPoint 1 1, QPoint 0 4]"
        and memRF = example_rectsF and pRF = 300 and rectsF = "[QRectF 0 0 2 1]"
        and memR = example_rects and pR = 300 and rects = "[QRect 0 0 2 1]"]
      batch_commands_hold_the_elements [where eng = example_engine and h = example_devices
        and els = "[EllipseElement (QRectF 0 0 1 1)]" and painter = "[]" and mode = PolylineMode
        and memLF = example_linesF and pLF = 100
        and linesF = "[QLineF (QPointF 0 0) (QPointF 1 1), QLineF (QPointF 2 2) (QPointF 3 3)]"
        and memL = example_lines and pL = 100
        and lines = "[QLine (QPoint 0 0) (QPoint 1 1), QLine (QPoint 2 2) (QPoint 3 3)]"
        and memPF = example_pointsF and pPF = 200
        and pointsF = "[QPointF 0 0, QPointF 4 0, QPointF 1 1, QPointF 0 4]"
        and memP = example_points and pP = 200
        and points = "[QPoint 0 0, QPoint 4 0, QPoint 1 1, QPoint 0 4]"
        and memRF = example_rectsF and pRF = 300 and rectsF = "[QRectF 0 0 2 1]"
        and memR = example_rects and pR = 300 and rects = "[QRect 0 0 2 1]"]
    by (simp add: pd)
qed

text \<open>
  C4: painting a polygon command is decided by the stored mode alone, for every
  sequence of points: odd-even mode calls \<^verbatim>\<open>drawPolygon\<close> with the odd-even fill
  rule, winding mode calls it with the winding fill rule, convex mode calls
  \<^verbatim>\<open>drawConvexPolygon\<close> and polyline mode calls \<^verbatim>\<open>drawPolyline\<close>.
\<close>

theorem polygon_paint_dispatches_on_mode:
  "paint (PolygonElement OddEvenMode pts) painter =
     (PolygonElement OddEvenMode pts, painter @ [DrawPolygon pts OddEvenFill])
   \<and> paint (PolygonElement WindingMode pts) painter =
     (PolygonElement WindingMode pts, painter @ [DrawPolygon pts WindingFill])
   \<and> paint (PolygonElement ConvexMode pts) painter =
     (PolygonElement ConvexMode pts, painter @ [DrawConvexPolygon pts])
   \<and> paint (PolygonElement PolylineMode pts) painter =
     (PolygonElement PolylineMode pts, painter @ [DrawPolyline pts])
   \<and> paint (PolygonFElement OddEvenMode ptsF) painter =
     (PolygonFElement OddEvenMode ptsF, painter @ [DrawPolygonF ptsF OddEvenFill])
   \<and> paint (PolygonFElement WindingMode ptsF) painter =
     (PolygonFElement WindingMode ptsF, painter @ [DrawPolygonF ptsF WindingFill])
   \<and> paint (PolygonFElement ConvexMode ptsF) painter =
     (PolygonFElement ConvexMode ptsF, painter @ [DrawConvexPolygonF ptsF])
   \<and> paint (PolygonFElement PolylineMode ptsF) painter =
     (PolygonFElement PolylineMode ptsF, painter @ [DrawPolylineF ptsF])"
  by simp

text \<open>
  C5 (as amended): \<^verbatim>\<open>end\<close> returns true and changes neither the engine, whose
  binding stays as \<^verbatim>\<open>begin\<close> set it, nor any device: the list of the bound device
  is as it was before the call.
\<close>

theorem end_succeeds_and_changes_nothing:
  "fst (engine_end eng h) = True
   \<and> fst (snd (engine_end eng h)) = eng
   \<and> snd (snd (engine_end eng h)) = h"
  by (simp add: engine_end_def)

text \<open>
  The claim as stated fails: after \<^verbatim>\<open>begin\<close> on the record device at 5 and
  \<^verbatim>\<open>end\<close>, the engine is not idle.
\<close>

theorem end_leaves_engine_bound:
  "is_RecordPaintDevice example_devices 5
   \<and> \<not> is_idle (fst (snd (engine_end
          (fst (snd (engine_begin new_RecordPaintEngine 5 example_devices))) example_devices)))"
  by (simp add: is_RecordPaintDevice_def example_devices_def engine_begin_def engine_end_def
      is_idle_def new_RecordPaintEngine_def)

text \<open>
  C6: the capability-type query returns the same identifier for every engine, and the
  identifier lies in the range of user-defined engine types, from \<^verbatim>\<open>User\<close> up to
  \<^verbatim>\<open>MaxUser\<close>, hence above every built-in renderer's identifier.
\<close>

theorem engine_type_is_user_defined:
  "engine_type eng = engine_type eng'
   \<and> engine_type eng = 84
   \<and> sint QPaintEngine_User \<le> sint (engine_type eng)
   \<and> sint (engine_type eng) \<le> sint QPaintEngine_MaxUser"
  by (simp add: engine_type_def QPaintEngine_User_def QPaintEngine_MaxUser_def)

text \<open>
  C7: a text notification appends a command that holds the position and the string
  of the text item, painting it calls \<^verbatim>\<open>drawText\<close> with that position and string,
  and nothing else of the text item (font, render flags, width, ascent, descent) has
  any influence on the command.
\<close>

theorem text_command_holds_position_and_string:
  assumes "pdev eng \<noteq> 0" and "h (pdev eng) = Some (RecordPaintDevice els)"
  shows "drawTextItem eng p textItem h =
           Some (h(pdev eng \<mapsto> RecordPaintDevice (els @ [TextElement p (item_text textItem)])))
       \<and> paint (TextElement p (item_text textItem)) painter =
           (TextElement p (item_text textItem), painter @ [DrawText p (item_text textItem)])
       \<and> mk_TextElement p (textItem\<lparr>item_font := f, item_renderFlags := r, item_width := w,
                                    item_ascent := a, item_descent := d\<rparr>) =
           mk_TextElement p textItem"
  using assms by (simp add: drawTextItem_def mk_TextElement_def addElement_bound)

theorem text_command_witness:
  "pdev example_engine \<noteq> 0
   \<and> example_devices (pdev example_engine) = Some (RecordPaintDevice [EllipseElement (QRectF 0 0 1 1)])
   \<and> drawTextItem example_engine (QPointF 1 2) example_textItem example_devices =
       Some (example_devices(5 \<mapsto> RecordPaintDevice
         [EllipseElement (QRectF 0 0 1 1), TextElement (QPointF 1 2) ''abc'']))
   \<and> paint (TextElement (QPointF 1 2) ''abc'') [] =
       (TextElement (QPointF 1 2) ''abc'', [DrawText (QPointF 1 2) ''abc''])"
  using text_command_holds_position_and_string [of example_engine example_devices "[EllipseElement (QRectF 0 0 1 1)]"
      "QPointF 1 2" example_textItem "[]"]
  by (simp add: example_engine_def example_devices_def example_textItem_def)

text \<open>
  C8: painting an element leaves the element as it was and makes one call on the
  painter, and the call is determined by the element alone; painting the same
  element twice makes the same call twice.
\<close>

theorem paint_depends_only_on_element:
  "\<exists>c. \<forall>painter.
     paint e painter = (e, painter @ [c])
     \<and> paint (fst (paint e painter)) (snd (paint e painter)) = (e, painter @ [c, c])"
proof -
  obtain c where c: "\<And>painter. paint e painter = (e, painter @ [c])"
    using paint_one_call by blast
  have "paint (fst (paint e painter)) (snd (paint e painter)) = (e, painter @ [c, c])"
    for painter
    by (simp add: c)
  with c show ?thesis by blast
qed

text \<open>
  C9: when the clip-region and the clip-path flags are both set, the clip commands
  appended by the notification are a clip-region command and a clip-path command
  that both carry the one clip operation of the state.
\<close>

theorem clip_commands_share_clipOperation:
  assumes "pdev eng \<noteq> 0" and "h (pdev eng) = Some (RecordPaintDevice els)"
    and "state st AND DirtyClipRegion \<noteq> 0" and "state st AND DirtyClipPath \<noteq> 0"
  shows "\<exists>new. updateState eng st h = Some (h(pdev eng \<mapsto> RecordPaintDevice (els @ new)))
           \<and> filter is_clip_element new =
               [ClipRegionElement (clipOperation st) (clipRegion st),
                ClipPathElement (clipOperation st) (clipPath st)]"
proof (intro exI conjI)
  show "updateState eng st h =
          Some (h(pdev eng \<mapsto> RecordPaintDevice (els @ spec_state_commands st)))"
    using assms(1,2) by (rule updateState_bound)
  show "filter is_clip_element (spec_state_commands st) =
               [ClipRegionElement (clipOperation st) (clipRegion st),
                ClipPathElement (clipOperation st) (clipPath st)]"
    unfolding spec_state_commands_unfold using assms(3,4) by simp
qed

theorem clip_commands_witness:
  "pdev example_engine \<noteq> 0
   \<and> example_devices (pdev example_engine) = Some (RecordPaintDevice [EllipseElement (QRectF 0 0 1 1)])
   \<and> state (example_state (DirtyClipRegion OR DirtyClipPath OR DirtyPen)) AND DirtyClipRegion \<noteq> 0
   \<and> state (example_state (DirtyClipRegion OR DirtyClipPath OR DirtyPen)) AND DirtyClipPath \<noteq> 0
   \<and> (\<exists>new. updateState example_engine (example_state (DirtyClipRegion OR DirtyClipPath OR DirtyPen))
               example_devices =
             Some (example_devices(5 \<mapsto> RecordPaintDevice ([EllipseElement (QRectF 0 0 1 1)] @ new)))
           \<and> filter is_clip_element new =
               [ClipRegionElement IntersectClip (QRegion 5),
                ClipPathElement IntersectClip (QPainterPath 6)])"
  using clip_commands_share_clipOperation [of example_engine example_devices "[EllipseElement (QRectF 0 0 1 1)]"
      "example_state (DirtyClipRegion OR DirtyClipPath OR DirtyPen)"]
  by (simp add: example_engine_def example_devices_def example_state_def
      DirtyClipRegion_def DirtyClipPath_def DirtyPen_def)

text \<open>
  C10: a batch notification with count zero still appends one command, for every
  array pointer; the command holds the empty sequence, and painting it makes one
  call on the painter, with no elements.
\<close>

theorem empty_batch_appends_one_command:
  assumes "pdev eng \<noteq> 0" and "h (pdev eng) = Some (RecordPaintDevice els)"
  shows
   "drawLines_QLineF eng memLF pLF 0 h =
       Some (h(pdev eng \<mapsto> RecordPaintDevice (els @ [LineFElement []])))
    \<and> paint (LineFElement []) painter = (LineFElement [], painter @ [DrawLinesF []])
    \<and> drawLines_QLine eng memL pL 0 h =
       Some (h(pdev eng \<mapsto> RecordPaintDevice (els @ [LineElement []])))
    \<and> paint (LineElement []) painter = (LineElement [], painter @ [DrawLines []])
    \<and> drawPoints_QPointF eng memPF pPF 0 h =
       Some (h(pdev eng \<mapsto> RecordPaintDevice (els @ [PointFElement []])))
    \<and> paint (PointFElement []) painter = (PointFElement [], painter @ [DrawPointsF []])
    \<and> drawPoints_QPoint eng memP pP 0 h =
       Some (h(pdev eng \<mapsto> RecordPaintDevice (els @ [PointElement []])))
    \<and> paint (PointElement []) painter = (PointElement [], painter @ [DrawPoints []])
    \<and> drawRects_QRectF eng memRF pRF 0 h =
       Some (h(pdev eng \<mapsto> RecordPaintDevice (els @ [RectFElement []])))
    \<and> paint (RectFElement []) painter = (RectFElement [], painter @ [DrawRectsF []])
    \<and> drawRects_QRect eng memR pR 0 h =
       Some (h(pdev eng \<mapsto> RecordPaintDevice (els @ [RectElement []])))
    \<and> paint (RectElement []) painter = (RectElement [], painter @ [DrawRects []])
    \<and> drawPolygon_QPointF eng memPF pPF 0 mode h =
       Some (h(pdev eng \<mapsto> RecordPaintDevice (els @ [PolygonFElement mode []])))
    \<and> snd (paint (PolygonFElement mode []) painter) =
        painter @ [case mode of
                     OddEvenMode \<Rightarrow> DrawPolygonF [] OddEvenFill
                   | WindingMode \<Rightarrow> DrawPolygonF [] WindingFill
                   | ConvexMode \<Rightarrow> DrawConvexPolygonF []
                   | PolylineMode \<Rightarrow> DrawPolylineF []]
    \<and> drawPolygon_QPoint eng memP pP 0 mode h =
       Some (h(pdev eng \<mapsto> RecordPaintDevice (els @ [PolygonElement mode []])))
    \<and> snd (paint (PolygonElement mode []) painter) =
        painter @ [case mode of
                     OddEvenMode \<Rightarrow> DrawPolygon [] OddEvenFill
                   | WindingMode \<Rightarrow> DrawPolygon [] WindingFill
                   | ConvexMode \<Rightarrow> DrawConvexPolygon []
                   | PolylineMode \<Rightarrow> DrawPolyline []]"
proof -
  note dev = addElement_bound [of "pdev eng" h els, OF assms]
  have polyF: "snd (paint (PolygonFElement mode []) painter) =
        painter @ [case mode of
                     OddEvenMode \<Rightarrow> DrawPolygonF [] OddEvenFill
                   | WindingMode \<Rightarrow> DrawPolygonF [] WindingFill
                   | ConvexMode \<Rightarrow> DrawConvexPolygonF []
                   | PolylineMode \<Rightarrow> DrawPolylineF []]"
    by (cases mode) simp_all
  have poly: "snd (paint (PolygonElement mode []) painter) =
        painter @ [case mode of
                     OddEvenMode \<Rightarrow> DrawPolygon [] OddEvenFill
                   | WindingMode \<Rightarrow> DrawPolygon [] WindingFill
                   | ConvexMode \<Rightarrow> DrawConvexPolygon []
                   | PolylineMode \<Rightarrow> DrawPolyline []]"
    by (cases mode) simp_all
  show ?thesis
    unfolding polyF poly
    by (simp add: drawLines_QLineF_def drawLines_QLine_def drawPoints_QPointF_def
        drawPoints_QPoint_def drawRects_QRectF_def drawRects_QRect_def
        drawPolygon_QPointF_def drawPolygon_QPoint_def
        lineElement_def pointElement_def rectElement_def polyElement_def dev)
qed

theorem empty_batch_witness:
  "pdev example_engine \<noteq> 0
   \<and> example_devices (pdev example_engine) = Some (RecordPaintDevice [EllipseElement (QRectF 0 0 1 1)])
   \<and> drawLines_QLineF example_engine Map.empty 0 0 example_devices =
       Some (example_devices(5 \<mapsto> RecordPaintDevice [EllipseElement (QRectF 0 0 1 1), LineFElement []]))
   \<and> drawRects_QRect example_engine example_rects 300 0 example_devices =
       Some (example_devices(5 \<mapsto> RecordPaintDevice [EllipseElement (QRectF 0 0 1 1), RectElement []]))
   \<and> drawPolygon_QPoint example_engine example_points 200 0 WindingMode example_devices =
       Some (example_devices(5 \<mapsto> RecordPaintDevice
         [EllipseElement (QRectF 0 0 1 1), PolygonElement WindingMode []]))
   \<and> snd (paint (PolygonElement WindingMode []) []) = [DrawPolygon [] WindingFill]"
  using empty_batch_appends_one_command [where eng = example_engine and h = example_devices
      and els = "[EllipseElement (QRectF 0 0 1 1)]" and painter = "[]" and mode = WindingMode
      and memLF = Map.empty and pLF = 0 and memR = example_rects and pR = 300
      and memP = example_points and pP = 200]
  by (simp add: example_engine_def example_devices_def)

end
